theory Spec2Isabelle
  imports Main
begin

section \<open>Statements that may raise\<close>

text \<open>
  A Python statement acts on a state and either returns a value or raises; the state it
  has reached is kept in both cases. \<open>and_then\<close> is sequencing: an exception of the
  first statement skips the rest.
\<close>

type_synonym ('s, 'e, 'a) stmt = "'s \<Rightarrow> ('e + 'a) \<times> 's"

definition and_then :: "('s, 'e, 'a) stmt \<Rightarrow> ('a \<Rightarrow> ('s, 'e, 'b) stmt) \<Rightarrow> ('s, 'e, 'b) stmt" where
  "and_then m f s = (case m s of (Inl e, s') \<Rightarrow> (Inl e, s') | (Inr x, s') \<Rightarrow> f x s')"

definition pass :: "('s, 'e, unit) stmt" where
  "pass s = (Inr (), s)"

section \<open>The cache-settings reconciler: \<open>check_redis_settings\<close>\<close>

subsection \<open>Exceptions, calls and the log\<close>

text \<open>
  An exception that a call of the Redis client can raise inside the \<open>try\<close> block of
  \<open>check_redis_settings\<close>: an instance of \<open>redis.exceptions.ConnectionError\<close>, or any
  other \<open>Exception\<close>. The string is \<open>str(e)\<close>.
\<close>

datatype exn = ConnectionError string | OtherException string

text \<open>
  \<open>RedisConnectionError(message)\<close> raised with \<open>raise_from(..., e)\<close>: the message and
  the cause \<open>e\<close>.
\<close>

datatype error = RedisConnectionError string exn

text \<open>The calls that \<open>check_redis_settings\<close> makes on the cache client and its helper.\<close>

datatype redis_call =
    GetMasterClient
  | GetMaxmemoryPolicy
  | SetMaxmemoryPolicy string
  | GetMaxmemory
  | GetUsedMemory
  | SetMaxmemory int

text \<open>
  What a run leaves behind, in order: calls on the cache server, \<open>logger.warning\<close>
  records with a message, and the record of \<open>logger.warning(e)\<close> for an exception \<open>e\<close>.
\<close>

datatype event = Call redis_call | LogWarning string | LogException exn

text \<open>
  The cache server as the reconciler sees it: its live eviction policy, its live maximum
  memory, its used memory, and which calls raise (\<open>None\<close>: the call returns). A run makes
  each call at most once (lemma \<open>events_once\<close>), so one outcome for each call is enough.
\<close>

record redis_server =
  live_policy :: string
  live_maxmemory :: int
  used_memory :: int
  raises :: "redis_call \<Rightarrow> exn option"

text \<open>
  The state of one run: the server, the \<open>changed\<close> flag of the settings helper
  (\<open>None\<close> while no helper has been constructed) and the events so far.
\<close>

record run =
  server :: redis_server
  helper_changed :: "bool option"
  trace :: "event list"

text \<open>\<open>OPTIONS["Cache"]\<close>, the three entries that \<open>check_redis_settings\<close> reads.\<close>

record options =
  CACHE_BACKEND :: string
  CACHE_REDIS_MAXMEMORY :: int
  CACHE_REDIS_MAXMEMORY_POLICY :: string

subsection \<open>The calls of the reconciler\<close>

type_synonym 'a action = "(run, exn, 'a) stmt"

definition logger_warning :: "string \<Rightarrow> unit action" where
  "logger_warning msg s = (Inr (), s\<lparr>trace := trace s @ [LogWarning msg]\<rparr>)"

text \<open>
  A call on the cache client: it is recorded, and it raises if the server says so.
\<close>

definition client_call :: "redis_call \<Rightarrow> unit action" where
  "client_call c s =
     (let s' = s\<lparr>trace := trace s @ [Call c]\<rparr>
      in case raises (server s) c of Some e \<Rightarrow> (Inl e, s') | None \<Rightarrow> (Inr (), s'))"

text \<open>\<open>process_cache.get_master_client()\<close>.\<close>

definition get_master_client :: "unit action" where
  "get_master_client = client_call GetMasterClient"

subsection \<open>The settings helper\<close>

text \<open>
  Modelled from the spec: the class \<open>RedisSettingsHelper\<close> of \<open>kolibri.core.utils.cache\<close>
  is not among the sources. The spec gives its interface (get policy, set policy, get
  maximum memory, set maximum memory, get used memory, each raising on an unreachable
  server), its flag (\<open>changed\<close>, false in a fresh helper) and the invariant that the flag
  is true if and only if a corrective write was sent. So a setter marks \<open>changed\<close> as it
  sends the write, whether the call then returns or raises; a write that returns has
  stored its value on the server, and a getter that returns gives the live value.
\<close>

definition RedisSettingsHelper :: "unit action" where
  "RedisSettingsHelper s = (Inr (), s\<lparr>helper_changed := Some False\<rparr>)"

definition mark_changed :: "unit action" where
  "mark_changed s = (Inr (), s\<lparr>helper_changed := Some True\<rparr>)"

definition get_maxmemory_policy :: "string action" where
  "get_maxmemory_policy =
     and_then (client_call GetMaxmemoryPolicy) (\<lambda>_ s. (Inr (live_policy (server s)), s))"

definition set_maxmemory_policy :: "string \<Rightarrow> unit action" where
  "set_maxmemory_policy p =
     and_then mark_changed (\<lambda>_.
     and_then (client_call (SetMaxmemoryPolicy p)) (\<lambda>_ s.
       (Inr (), s\<lparr>server := (server s)\<lparr>live_policy := p\<rparr>\<rparr>)))"

definition get_maxmemory :: "int action" where
  "get_maxmemory =
     and_then (client_call GetMaxmemory) (\<lambda>_ s. (Inr (live_maxmemory (server s)), s))"

definition get_used_memory :: "int action" where
  "get_used_memory =
     and_then (client_call GetUsedMemory) (\<lambda>_ s. (Inr (used_memory (server s)), s))"

definition set_maxmemory :: "int \<Rightarrow> unit action" where
  "set_maxmemory m =
     and_then mark_changed (\<lambda>_.
     and_then (client_call (SetMaxmemory m)) (\<lambda>_ s.
       (Inr (), s\<lparr>server := (server s)\<lparr>live_maxmemory := m\<rparr>\<rparr>)))"

text \<open>Reading \<open>helper.changed\<close> (line 162, where the helper exists).\<close>

definition changed :: "bool action" where
  "changed s = (Inr (helper_changed s = Some True), s)"

subsection \<open>The messages\<close>

definition policy_warning :: string where
  "policy_warning =
     ''Redis is configured without a maximum memory policy. Using Redis with '' @
     ''Kolibri, the following is suggested: maxmemory-policy allkeys-lru''"

definition used_memory_warning :: "string \<Rightarrow> string \<Rightarrow> string" where
  "used_memory_warning used config_memory =
     ''Redis was using '' @ used @
     '' before setting `maxmemory` configuration of '' @ config_memory"

definition maxmemory_warning :: string where
  "maxmemory_warning = ''Redis is configured without a maximum memory size.''"

definition final_warning :: string where
  "final_warning =
     ''Problematic Redis settings detected, please see Redis configuration '' @
     ''documentation for details: https://redis.io/topics/config''"

definition unable_to_connect :: "string \<Rightarrow> string" where
  "unable_to_connect e = ''Unable to connect to Redis: '' @ e"

definition unable_to_check :: string where
  "unable_to_check = ''Unable to check Redis settings''"

subsection \<open>The reconciler\<close>

text \<open>
  Lines 133 to 143: the eviction policy. The value is the local variable
  \<open>maxmemory_policy\<close>, the policy that was fetched.
\<close>

definition reconcile_policy :: "string \<Rightarrow> string action" where
  "reconcile_policy config_maxmemory_policy =
     and_then get_maxmemory_policy (\<lambda>maxmemory_policy.
     and_then
       (if config_maxmemory_policy \<noteq> '''' \<and> maxmemory_policy \<noteq> config_maxmemory_policy
        then set_maxmemory_policy config_maxmemory_policy
        else if maxmemory_policy = ''noeviction''
        then logger_warning policy_warning
        else pass) (\<lambda>_ s.
     (Inr maxmemory_policy, s)))"

text \<open>
  Lines 146 to 159: the maximum memory. The value is the local variable \<open>maxmemory\<close>,
  the maximum that was fetched. \<open>bytes_for_humans\<close> (\<open>kolibri.utils.data\<close>) is not among
  the sources and is a parameter.
\<close>

definition reconcile_maxmemory :: "int \<Rightarrow> (int \<Rightarrow> string) \<Rightarrow> int action" where
  "reconcile_maxmemory config_maxmemory bytes_for_humans =
     and_then get_maxmemory (\<lambda>maxmemory.
     and_then
       (if config_maxmemory > 0 \<and> maxmemory \<noteq> config_maxmemory
        then and_then get_used_memory (\<lambda>used.
             and_then
               (if config_maxmemory < used
                then logger_warning
                       (used_memory_warning (bytes_for_humans used)
                          (bytes_for_humans config_maxmemory))
                else pass) (\<lambda>_.
             set_maxmemory config_maxmemory))
        else if maxmemory = 0
        then logger_warning maxmemory_warning
        else pass) (\<lambda>_ s.
     (Inr maxmemory, s)))"

text \<open>Lines 162 to 168: the final message about the configuration.\<close>

definition final_message :: "string \<Rightarrow> int \<Rightarrow> unit action" where
  "final_message maxmemory_policy maxmemory =
     and_then changed (\<lambda>is_changed.
       if \<not> is_changed \<and> (maxmemory = 0 \<or> maxmemory_policy = ''noeviction'')
       then logger_warning final_warning
       else pass)"

text \<open>The body of the \<open>try\<close> statement (lines 129 to 168).\<close>

definition try_block :: "int \<Rightarrow> string \<Rightarrow> (int \<Rightarrow> string) \<Rightarrow> unit action" where
  "try_block config_maxmemory config_maxmemory_policy bytes_for_humans =
     and_then get_master_client (\<lambda>_.
     and_then RedisSettingsHelper (\<lambda>_.
     and_then (reconcile_policy config_maxmemory_policy) (\<lambda>maxmemory_policy.
     and_then (reconcile_maxmemory config_maxmemory bytes_for_humans) (\<lambda>maxmemory.
     final_message maxmemory_policy maxmemory))))"

text \<open>How a run of \<open>check_redis_settings\<close> ends: it returns, or it raises.\<close>

datatype outcome = Returned | Raised error

text \<open>
  \<open>check_redis_settings\<close> (lines 114 to 179): the early return for another backend, the
  \<open>try\<close> block and its two handlers. A run starts with no helper and an empty trace.
\<close>

definition check_redis_settings ::
  "options \<Rightarrow> (int \<Rightarrow> string) \<Rightarrow> redis_server \<Rightarrow> outcome \<times> run" where
  "check_redis_settings OPTIONS bytes_for_humans srv =
     (let s0 = \<lparr>server = srv, helper_changed = None, trace = []\<rparr>
      in if CACHE_BACKEND OPTIONS \<noteq> ''redis'' then (Returned, s0)
         else
           (case try_block (CACHE_REDIS_MAXMEMORY OPTIONS) (CACHE_REDIS_MAXMEMORY_POLICY OPTIONS)
                   bytes_for_humans s0 of
              (Inr _, s) \<Rightarrow> (Returned, s)
            | (Inl (ConnectionError e), s) \<Rightarrow>
                (Raised (RedisConnectionError (unable_to_connect e) (ConnectionError e)),
                 s\<lparr>trace := trace s @ [LogWarning (unable_to_connect e)]\<rparr>)
            | (Inl (OtherException e), s) \<Rightarrow>
                (Returned,
                 s\<lparr>trace := trace s @ [LogWarning unable_to_check, LogException (OtherException e)]\<rparr>)))"

subsection \<open>What a run did\<close>

text \<open>The corrective writes of a trace, in order, and the exceptions its calls raised.\<close>

fun set_policy_calls :: "event list \<Rightarrow> string list" where
  "set_policy_calls [] = []"
| "set_policy_calls (Call (SetMaxmemoryPolicy p) # t) = p # set_policy_calls t"
| "set_policy_calls (_ # t) = set_policy_calls t"

fun set_maxmemory_calls :: "event list \<Rightarrow> int list" where
  "set_maxmemory_calls [] = []"
| "set_maxmemory_calls (Call (SetMaxmemory m) # t) = m # set_maxmemory_calls t"
| "set_maxmemory_calls (_ # t) = set_maxmemory_calls t"

fun raised :: "redis_server \<Rightarrow> event list \<Rightarrow> exn list" where
  "raised srv [] = []"
| "raised srv (Call c # t) =
     (case raises srv c of Some e \<Rightarrow> e # raised srv t | None \<Rightarrow> raised srv t)"
| "raised srv (_ # t) = raised srv t"

text \<open>\<open>precedes a b t\<close>: in \<open>t\<close>, an occurrence of \<open>a\<close> comes before an occurrence of \<open>b\<close>.\<close>

fun precedes :: "'a \<Rightarrow> 'a \<Rightarrow> 'a list \<Rightarrow> bool" where
  "precedes a b [] = False"
| "precedes a b (x # xs) = ((x = a \<and> b \<in> set xs) \<or> precedes a b xs)"

text \<open>A value was fetched: the call was made and it returned.\<close>

definition fetched :: "redis_server \<Rightarrow> run \<Rightarrow> redis_call \<Rightarrow> bool" where
  "fetched srv r c = (Call c \<in> set (trace r) \<and> raises srv c = None)"

section \<open>The database tuners\<close>

subsection \<open>Connections, calls and exceptions\<close>

text \<open>A Django connection handle: the attributes that the tuners read.\<close>

record connection =
  vendor :: string
  "alias" :: string

text \<open>
  An exception of a database call: an instance of \<open>django.db.utils.DatabaseError\<close>, or
  any other exception.
\<close>

datatype db_exn = DatabaseError | OtherError

text \<open>The calls of the tuners, as they appear in the source.\<close>

datatype db_event =
    ConnectionCursor connection
  | CursorExecute string
  | Fetchone
  | CursorExecutescript string
  | RepairSqliteDb connection
  | ConnectionClose connection

type_synonym 'a db_stmt = "(db_event list, db_exn, 'a) stmt"

text \<open>A database call is recorded, and it raises if its outcome says so.\<close>

definition db_call :: "db_event \<Rightarrow> db_exn option \<Rightarrow> unit db_stmt" where
  "db_call ev outcome t =
     (case outcome of Some e \<Rightarrow> (Inl e, t @ [ev]) | None \<Rightarrow> (Inr (), t @ [ev]))"

subsection \<open>The connection tuner: \<open>activate_pragmas_per_connection\<close>\<close>

text \<open>
  What each call of one invocation meets (\<open>None\<close>: the call returns): the cursor and
  the \<open>execute\<close> of the probe, \<open>fetchone()[0]\<close> (an exception or the value of the quick
  check), the repair, and the cursor and the \<open>executescript\<close> of the tuning script.
\<close>

record connection_env =
  probe_cursor :: "db_exn option"
  probe_execute :: "db_exn option"
  probe_fetchone :: "db_exn + string"
  repair :: "db_exn option"
  pragmas_cursor :: "db_exn option"
  pragmas_executescript :: "db_exn option"

text \<open>The body of the \<open>try\<close> statement up to the value of \<open>quick_check\<close> (lines 72, 73).\<close>

definition quick_check_probe :: "connection \<Rightarrow> connection_env \<Rightarrow> string db_stmt" where
  "quick_check_probe connection env =
     and_then (db_call (ConnectionCursor connection) (probe_cursor env)) (\<lambda>_.
     and_then (db_call (CursorExecute ''PRAGMA quick_check'') (probe_execute env)) (\<lambda>_ t.
       (probe_fetchone env, t @ [Fetchone])))"

text \<open>
  Lines 70 to 76, the value of \<open>broken_db\<close>: \<open>except DatabaseError\<close> catches a database
  error, any other exception leaves the function.
\<close>

definition broken_db :: "connection \<Rightarrow> connection_env \<Rightarrow> bool db_stmt" where
  "broken_db connection env t =
     (case quick_check_probe connection env t of
        (Inr quick_check, t') \<Rightarrow> (Inr (quick_check \<noteq> ''ok''), t')
      | (Inl DatabaseError, t') \<Rightarrow> (Inr True, t')
      | (Inl OtherError, t') \<Rightarrow> (Inl OtherError, t'))"

text \<open>
  \<open>activate_pragmas_per_connection\<close> (lines 61 to 82). The constants \<open>NOTIFICATIONS\<close> and
  \<open>CONNECTION_PRAGMAS\<close> are imported from modules that are not among the sources, and are
  parameters; \<open>sender\<close> and \<open>kwargs\<close> are not used. The result is the exception that
  leaves the function, if any, and the calls made.
\<close>

definition activate_pragmas_per_connection ::
  "string \<Rightarrow> string \<Rightarrow> connection \<Rightarrow> connection_env \<Rightarrow> db_exn option \<times> db_event list" where
  "activate_pragmas_per_connection NOTIFICATIONS CONNECTION_PRAGMAS connection env =
     (if vendor connection = ''sqlite''
      then
        (case
           and_then
             (if alias connection = NOTIFICATIONS
              then and_then (broken_db connection env) (\<lambda>broken.
                     if broken then db_call (RepairSqliteDb connection) (repair env) else pass)
              else pass) (\<lambda>_.
           and_then (db_call (ConnectionCursor connection) (pragmas_cursor env)) (\<lambda>_.
           db_call (CursorExecutescript CONNECTION_PRAGMAS) (pragmas_executescript env))) []
         of (Inl e, t) \<Rightarrow> (Some e, t) | (Inr _, t) \<Rightarrow> (None, t))
      else (None, []))"

subsection \<open>The startup tuner: \<open>activate_pragmas_on_start\<close>\<close>

text \<open>What the three calls of one invocation meet (\<open>None\<close>: the call returns).\<close>

record start_env =
  start_cursor :: "db_exn option"
  start_execute :: "db_exn option"
  start_close :: "db_exn option"

text \<open>
  \<open>activate_pragmas_on_start\<close> (lines 95 to 111). \<open>connection\<close> is the default connection
  (\<open>from django.db import connection\<close>); \<open>START_PRAGMAS\<close> is imported from a module that
  is not among the sources, and is a parameter.
\<close>

definition activate_pragmas_on_start ::
  "string \<Rightarrow> connection \<Rightarrow> start_env \<Rightarrow> db_exn option \<times> db_event list" where
  "activate_pragmas_on_start START_PRAGMAS connection env =
     (if vendor connection = ''sqlite''
      then
        (case
           and_then (db_call (ConnectionCursor connection) (start_cursor env)) (\<lambda>_.
           and_then (db_call (CursorExecute START_PRAGMAS) (start_execute env)) (\<lambda>_.
           db_call (ConnectionClose connection) (start_close env))) []
         of (Inl e, t) \<Rightarrow> (Some e, t) | (Inr _, t) \<Rightarrow> (None, t))
      else (None, []))"

subsection \<open>What an invocation did\<close>

text \<open>The connections that \<open>repair_sqlite_db\<close> was called on, in order.\<close>

fun repair_calls :: "db_event list \<Rightarrow> connection list" where
  "repair_calls [] = []"
| "repair_calls (RepairSqliteDb c # t) = c # repair_calls t"
| "repair_calls (_ # t) = repair_calls t"

text \<open>
  The integrity probe fails: running it raises a database error, or the value of the
  quick check is not \<open>ok\<close>.
\<close>

definition probe_fails :: "connection_env \<Rightarrow> bool" where
  "probe_fails env =
     (case probe_cursor env of
        Some e \<Rightarrow> e = DatabaseError
      | None \<Rightarrow>
          (case probe_execute env of
             Some e \<Rightarrow> e = DatabaseError
           | None \<Rightarrow>
               (case probe_fetchone env of
                  Inl e \<Rightarrow> e = DatabaseError
                | Inr quick_check \<Rightarrow> quick_check \<noteq> ''ok'')))"

section \<open>Example inputs\<close>

text \<open>A server on which no call raises, and a stand-in for \<open>bytes_for_humans\<close>.\<close>

abbreviation reachable :: "redis_call \<Rightarrow> exn option" where
  "reachable \<equiv> (\<lambda>_. None)"

abbreviation in_bytes :: "int \<Rightarrow> string" where
  "in_bytes \<equiv> (\<lambda>n. if n = 100 then ''100.0B'' else if n = 200 then ''200.0B'' else ''0.0B'')"

abbreviation fresh_server :: redis_server where
  "fresh_server \<equiv>
     \<lparr>live_policy = ''noeviction'', live_maxmemory = 0, used_memory = 200, raises = reachable\<rparr>"

abbreviation no_preference :: options where
  "no_preference \<equiv>
     \<lparr>CACHE_BACKEND = ''redis'', CACHE_REDIS_MAXMEMORY = 0, CACHE_REDIS_MAXMEMORY_POLICY = ''''\<rparr>"

abbreviation lru_100 :: options where
  "lru_100 \<equiv>
     \<lparr>CACHE_BACKEND = ''redis'', CACHE_REDIS_MAXMEMORY = 100,
      CACHE_REDIS_MAXMEMORY_POLICY = ''allkeys-lru''\<rparr>"

text \<open>
  A server that refuses the fetch of the maximum memory, and one whose answer to it makes
  the helper raise another exception.
\<close>

abbreviation refusing_server :: redis_server where
  "refusing_server \<equiv>
     \<lparr>live_policy = ''noeviction'', live_maxmemory = 0, used_memory = 200,
      raises = reachable(GetMaxmemory := Some (ConnectionError ''Connection refused''))\<rparr>"

abbreviation confused_server :: redis_server where
  "confused_server \<equiv>
     \<lparr>live_policy = ''noeviction'', live_maxmemory = 0, used_memory = 200,
      raises = reachable(GetMaxmemory := Some (OtherException ''invalid literal''))\<rparr>"

text \<open>The server after a run with \<open>lru_100\<close>, later on.\<close>

abbreviation settled_server :: redis_server where
  "settled_server \<equiv>
     \<lparr>live_policy = ''allkeys-lru'', live_maxmemory = 100, used_memory = 150, raises = reachable\<rparr>"

abbreviation notifications_db :: connection where
  "notifications_db \<equiv> \<lparr>vendor = ''sqlite'', alias = ''notifications''\<rparr>"

abbreviation malformed_db :: connection_env where
  "malformed_db \<equiv>
     \<lparr>probe_cursor = None, probe_execute = None, probe_fetchone = Inr ''malformed'',
      repair = None, pragmas_cursor = None, pragmas_executescript = None\<rparr>"

abbreviation healthy_start :: start_env where
  "healthy_start \<equiv> \<lparr>start_cursor = None, start_execute = None, start_close = None\<rparr>"

section \<open>Running the blocks of the reconciler\<close>

lemmas stmt_defs = and_then_def pass_def logger_warning_def client_call_def get_master_client_def
  RedisSettingsHelper_def mark_changed_def get_maxmemory_policy_def set_maxmemory_policy_def
  get_maxmemory_def get_used_memory_def set_maxmemory_def changed_def

lemmas run_defs = check_redis_settings_def try_block_def reconcile_policy_def
  reconcile_maxmemory_def final_message_def stmt_defs

text \<open>The five ways through lines 133 to 143.\<close>

lemma reconcile_policy_cases:
  assumes "reconcile_policy P s = (res, s')"
  obtains
    (fetch_raises) e where
      "raises (server s) GetMaxmemoryPolicy = Some e" "res = Inl e"
      "s' = s\<lparr>trace := trace s @ [Call GetMaxmemoryPolicy]\<rparr>"
  | (set_raises) e where
      "raises (server s) GetMaxmemoryPolicy = None"
      "P \<noteq> ''''" "live_policy (server s) \<noteq> P"
      "raises (server s) (SetMaxmemoryPolicy P) = Some e" "res = Inl e"
      "s' = s\<lparr>helper_changed := Some True,
                trace := trace s @ [Call GetMaxmemoryPolicy, Call (SetMaxmemoryPolicy P)]\<rparr>"
  | (set_returns)
      "raises (server s) GetMaxmemoryPolicy = None"
      "P \<noteq> ''''" "live_policy (server s) \<noteq> P"
      "raises (server s) (SetMaxmemoryPolicy P) = None" "res = Inr (live_policy (server s))"
      "s' = s\<lparr>server := (server s)\<lparr>live_policy := P\<rparr>, helper_changed := Some True,
                trace := trace s @ [Call GetMaxmemoryPolicy, Call (SetMaxmemoryPolicy P)]\<rparr>"
  | (warns)
      "raises (server s) GetMaxmemoryPolicy = None"
      "P = '''' \<or> live_policy (server s) = P" "live_policy (server s) = ''noeviction''"
      "res = Inr (live_policy (server s))"
      "s' = s\<lparr>trace := trace s @ [Call GetMaxmemoryPolicy, LogWarning policy_warning]\<rparr>"
  | (keeps)
      "raises (server s) GetMaxmemoryPolicy = None"
      "P = '''' \<or> live_policy (server s) = P" "live_policy (server s) \<noteq> ''noeviction''"
      "res = Inr (live_policy (server s))"
      "s' = s\<lparr>trace := trace s @ [Call GetMaxmemoryPolicy]\<rparr>"
  using assms unfolding reconcile_policy_def stmt_defs
  by (auto simp: Let_def split: option.splits if_splits)

text \<open>The six ways through lines 146 to 159.\<close>

lemma reconcile_maxmemory_cases:
  assumes "reconcile_maxmemory M bfh s = (res, s')"
  obtains
    (fetch_raises) e where
      "raises (server s) GetMaxmemory = Some e" "res = Inl e"
      "s' = s\<lparr>trace := trace s @ [Call GetMaxmemory]\<rparr>"
  | (used_raises) e where
      "raises (server s) GetMaxmemory = None"
      "0 < M" "live_maxmemory (server s) \<noteq> M"
      "raises (server s) GetUsedMemory = Some e" "res = Inl e"
      "s' = s\<lparr>trace := trace s @ [Call GetMaxmemory, Call GetUsedMemory]\<rparr>"
  | (set_raises) e where
      "raises (server s) GetMaxmemory = None"
      "0 < M" "live_maxmemory (server s) \<noteq> M"
      "raises (server s) GetUsedMemory = None"
      "raises (server s) (SetMaxmemory M) = Some e" "res = Inl e"
      "s' = s\<lparr>helper_changed := Some True,
                trace := trace s @ [Call GetMaxmemory, Call GetUsedMemory] @
                  (if M < used_memory (server s)
                   then [LogWarning (used_memory_warning (bfh (used_memory (server s))) (bfh M))]
                   else []) @ [Call (SetMaxmemory M)]\<rparr>"
  | (set_returns)
      "raises (server s) GetMaxmemory = None"
      "0 < M" "live_maxmemory (server s) \<noteq> M"
      "raises (server s) GetUsedMemory = None"
      "raises (server s) (SetMaxmemory M) = None" "res = Inr (live_maxmemory (server s))"
      "s' = s\<lparr>server := (server s)\<lparr>live_maxmemory := M\<rparr>, helper_changed := Some True,
                trace := trace s @ [Call GetMaxmemory, Call GetUsedMemory] @
                  (if M < used_memory (server s)
                   then [LogWarning (used_memory_warning (bfh (used_memory (server s))) (bfh M))]
                   else []) @ [Call (SetMaxmemory M)]\<rparr>"
  | (warns)
      "raises (server s) GetMaxmemory = None"
      "M \<le> 0 \<or> live_maxmemory (server s) = M" "live_maxmemory (server s) = 0"
      "res = Inr (live_maxmemory (server s))"
      "s' = s\<lparr>trace := trace s @ [Call GetMaxmemory, LogWarning maxmemory_warning]\<rparr>"
  | (keeps)
      "raises (server s) GetMaxmemory = None"
      "M \<le> 0 \<or> live_maxmemory (server s) = M" "live_maxmemory (server s) \<noteq> 0"
      "res = Inr (live_maxmemory (server s))"
      "s' = s\<lparr>trace := trace s @ [Call GetMaxmemory]\<rparr>"
  using assms unfolding reconcile_maxmemory_def stmt_defs
  by (auto simp: Let_def split: option.splits if_splits)

text \<open>Lines 162 to 168 never raise.\<close>

lemma final_message_eq:
  "final_message L m s =
     (Inr (), if helper_changed s \<noteq> Some True \<and> (m = 0 \<or> L = ''noeviction'')
              then s\<lparr>trace := trace s @ [LogWarning final_warning]\<rparr> else s)"
  unfolding final_message_def stmt_defs by simp

text \<open>Where the \<open>try\<close> block can stop.\<close>

lemma try_block_cases:
  assumes "try_block M P bfh \<lparr>server = srv, helper_changed = None, trace = []\<rparr> = (res, r)"
  obtains
    (client_raises) e where
      "raises srv GetMasterClient = Some e" "res = Inl e"
      "r = \<lparr>server = srv, helper_changed = None, trace = [Call GetMasterClient]\<rparr>"
  | (policy_raises) e where
      "raises srv GetMasterClient = None" "res = Inl e"
      "reconcile_policy P \<lparr>server = srv, helper_changed = Some False,
         trace = [Call GetMasterClient]\<rparr> = (Inl e, r)"
  | (maxmemory_raises) e L s1 where
      "raises srv GetMasterClient = None" "res = Inl e"
      "reconcile_policy P \<lparr>server = srv, helper_changed = Some False,
         trace = [Call GetMasterClient]\<rparr> = (Inr L, s1)"
      "reconcile_maxmemory M bfh s1 = (Inl e, r)"
  | (completes) L s1 m s2 where
      "raises srv GetMasterClient = None" "res = Inr ()"
      "reconcile_policy P \<lparr>server = srv, helper_changed = Some False,
         trace = [Call GetMasterClient]\<rparr> = (Inr L, s1)"
      "reconcile_maxmemory M bfh s1 = (Inr m, s2)"
      "final_message L m s2 = (Inr (), r)"
  using assms
  unfolding try_block_def and_then_def get_master_client_def client_call_def
    RedisSettingsHelper_def final_message_eq
  by (auto simp: Let_def split: option.splits sum.splits prod.splits)

text \<open>The early return, the normal end and the two handlers.\<close>

lemma check_redis_settings_cases:
  assumes "check_redis_settings opts bfh srv = (out, r)"
  obtains
    (other_backend)
      "CACHE_BACKEND opts \<noteq> ''redis''" "out = Returned"
      "r = \<lparr>server = srv, helper_changed = None, trace = []\<rparr>"
  | (completes)
      "CACHE_BACKEND opts = ''redis''" "out = Returned"
      "try_block (CACHE_REDIS_MAXMEMORY opts) (CACHE_REDIS_MAXMEMORY_POLICY opts) bfh
         \<lparr>server = srv, helper_changed = None, trace = []\<rparr> = (Inr (), r)"
  | (connection_error) e s where
      "CACHE_BACKEND opts = ''redis''"
      "out = Raised (RedisConnectionError (unable_to_connect e) (ConnectionError e))"
      "try_block (CACHE_REDIS_MAXMEMORY opts) (CACHE_REDIS_MAXMEMORY_POLICY opts) bfh
         \<lparr>server = srv, helper_changed = None, trace = []\<rparr> = (Inl (ConnectionError e), s)"
      "r = s\<lparr>trace := trace s @ [LogWarning (unable_to_connect e)]\<rparr>"
  | (other_exception) e s where
      "CACHE_BACKEND opts = ''redis''" "out = Returned"
      "try_block (CACHE_REDIS_MAXMEMORY opts) (CACHE_REDIS_MAXMEMORY_POLICY opts) bfh
         \<lparr>server = srv, helper_changed = None, trace = []\<rparr> = (Inl (OtherException e), s)"
      "r = s\<lparr>trace := trace s @ [LogWarning unable_to_check, LogException (OtherException e)]\<rparr>"
  using assms unfolding check_redis_settings_def
  by (auto simp: Let_def split: if_splits sum.splits prod.splits exn.splits)

lemmas run_cases = check_redis_settings_cases try_block_cases reconcile_policy_cases
  reconcile_maxmemory_cases

text \<open>The messages differ from one another, whatever \<open>bytes_for_humans\<close> returns.\<close>

lemma messages_differ [simp]:
  "policy_warning \<noteq> maxmemory_warning" "policy_warning \<noteq> final_warning"
  "policy_warning \<noteq> used_memory_warning a b" "policy_warning \<noteq> unable_to_connect e"
  "policy_warning \<noteq> unable_to_check"
  "maxmemory_warning \<noteq> policy_warning" "maxmemory_warning \<noteq> final_warning"
  "maxmemory_warning \<noteq> used_memory_warning a b"
  "final_warning \<noteq> policy_warning" "final_warning \<noteq> maxmemory_warning"
  "final_warning \<noteq> used_memory_warning a b"
  "used_memory_warning a b \<noteq> policy_warning" "used_memory_warning a b \<noteq> maxmemory_warning"
  "used_memory_warning a b \<noteq> final_warning"
  "unable_to_connect e \<noteq> policy_warning" "unable_to_connect e \<noteq> maxmemory_warning"
  "unable_to_connect e \<noteq> used_memory_warning a b" "unable_to_connect e \<noteq> final_warning"
  "unable_to_check \<noteq> policy_warning" "unable_to_check \<noteq> maxmemory_warning"
  "unable_to_check \<noteq> used_memory_warning a b" "unable_to_check \<noteq> final_warning"
  by (simp_all add: policy_warning_def maxmemory_warning_def final_warning_def
      used_memory_warning_def unable_to_connect_def unable_to_check_def)

section \<open>Some runs\<close>

lemma run_lru_100:
  "check_redis_settings lru_100 in_bytes fresh_server =
     (Returned,
      \<lparr>server = \<lparr>live_policy = ''allkeys-lru'', live_maxmemory = 100, used_memory = 200,
                 raises = reachable\<rparr>,
       helper_changed = Some True,
       trace = [Call GetMasterClient, Call GetMaxmemoryPolicy,
                Call (SetMaxmemoryPolicy ''allkeys-lru''), Call GetMaxmemory, Call GetUsedMemory,
                LogWarning (used_memory_warning ''200.0B'' ''100.0B''),
                Call (SetMaxmemory 100)]\<rparr>)"
  by (simp add: run_defs)

lemma run_no_preference:
  "check_redis_settings no_preference in_bytes fresh_server =
     (Returned,
      \<lparr>server = fresh_server, helper_changed = Some False,
       trace = [Call GetMasterClient, Call GetMaxmemoryPolicy, LogWarning policy_warning,
                Call GetMaxmemory, LogWarning maxmemory_warning, LogWarning final_warning]\<rparr>)"
  by (simp add: run_defs)

lemma run_refused:
  "check_redis_settings lru_100 in_bytes refusing_server =
     (Raised (RedisConnectionError (unable_to_connect ''Connection refused'')
        (ConnectionError ''Connection refused'')),
      \<lparr>server = \<lparr>live_policy = ''allkeys-lru'', live_maxmemory = 0, used_memory = 200,
                 raises = reachable(GetMaxmemory := Some (ConnectionError ''Connection refused''))\<rparr>,
       helper_changed = Some True,
       trace = [Call GetMasterClient, Call GetMaxmemoryPolicy,
                Call (SetMaxmemoryPolicy ''allkeys-lru''), Call GetMaxmemory,
                LogWarning (unable_to_connect ''Connection refused'')]\<rparr>)"
  by (simp add: run_defs)

lemma run_confused:
  "check_redis_settings no_preference in_bytes confused_server =
     (Returned,
      \<lparr>server = confused_server, helper_changed = Some False,
       trace = [Call GetMasterClient, Call GetMaxmemoryPolicy, LogWarning policy_warning,
                Call GetMaxmemory, LogWarning unable_to_check,
                LogException (OtherException ''invalid literal'')]\<rparr>)"
  by (simp add: run_defs)

lemma run_settled:
  "check_redis_settings lru_100 in_bytes settled_server =
     (Returned,
      \<lparr>server = settled_server, helper_changed = Some False,
       trace = [Call GetMasterClient, Call GetMaxmemoryPolicy, Call GetMaxmemory]\<rparr>)"
  by (simp add: run_defs)

section \<open>The claims about the reconciler\<close>

text \<open>
  C1. In every run that fetched the live eviction policy: if the desired policy is not
  empty and differs from the live policy, exactly one call sets the policy, to the
  desired policy, and the helper's \<open>changed\<close> flag is true at the end of the run;
  otherwise no call sets the policy, and the warning that recommends an eviction policy
  (\<open>policy_warning\<close>, which suggests \<open>allkeys-lru\<close>) is logged if and only if the live
  policy is \<open>noeviction\<close>.
\<close>

theorem policy_reconciled:
  assumes "check_redis_settings opts bfh srv = (out, r)"
    and "fetched srv r GetMaxmemoryPolicy"
  shows "if CACHE_REDIS_MAXMEMORY_POLICY opts \<noteq> '''' \<and>
            CACHE_REDIS_MAXMEMORY_POLICY opts \<noteq> live_policy srv
         then set_policy_calls (trace r) = [CACHE_REDIS_MAXMEMORY_POLICY opts] \<and>
              helper_changed r = Some True
         else set_policy_calls (trace r) = [] \<and>
              (LogWarning policy_warning \<in> set (trace r)) = (live_policy srv = ''noeviction'')"
  using assms
  apply (elim run_cases)
  apply (simp_all add: final_message_eq split: if_splits)
  apply (clarsimp simp: fetched_def)+
  done

theorem policy_reconciled_instance:
  "fetched fresh_server (snd (check_redis_settings lru_100 in_bytes fresh_server))
     GetMaxmemoryPolicy \<and>
   set_policy_calls (trace (snd (check_redis_settings lru_100 in_bytes fresh_server))) =
     [''allkeys-lru''] \<and>
   helper_changed (snd (check_redis_settings lru_100 in_bytes fresh_server)) = Some True"
proof -
  let ?run = "check_redis_settings lru_100 in_bytes fresh_server"
  have run: "?run = (fst ?run, snd ?run)"
    by simp
  have f: "fetched fresh_server (snd ?run) GetMaxmemoryPolicy"
    by (simp add: run_lru_100 fetched_def)
  from policy_reconciled [OF run f] f show ?thesis
    by (simp add: run_lru_100)
qed

text \<open>
  C2. In every run that fetched the live maximum memory: if the desired maximum is
  greater than 0 and differs from the live maximum, the used memory is asked for, and
  when that call returns, exactly one call sets the maximum, to the desired maximum, and
  if the used memory exceeds the desired maximum the warning with both humanized values
  comes before that call; otherwise no call sets the maximum, and the warning that no
  maximum is configured is logged if and only if the live maximum is 0.
\<close>

theorem maxmemory_reconciled:
  assumes "check_redis_settings opts bfh srv = (out, r)"
    and "fetched srv r GetMaxmemory"
  shows "if 0 < CACHE_REDIS_MAXMEMORY opts \<and> CACHE_REDIS_MAXMEMORY opts \<noteq> live_maxmemory srv
         then Call GetUsedMemory \<in> set (trace r) \<and>
              (raises srv GetUsedMemory = None \<longrightarrow>
                 set_maxmemory_calls (trace r) = [CACHE_REDIS_MAXMEMORY opts] \<and>
                 (CACHE_REDIS_MAXMEMORY opts < used_memory srv \<longrightarrow>
                    precedes
                      (LogWarning (used_memory_warning (bfh (used_memory srv))
                         (bfh (CACHE_REDIS_MAXMEMORY opts))))
                      (Call (SetMaxmemory (CACHE_REDIS_MAXMEMORY opts))) (trace r)))
         else set_maxmemory_calls (trace r) = [] \<and>
              (LogWarning maxmemory_warning \<in> set (trace r)) = (live_maxmemory srv = 0)"
  using assms
  apply (elim run_cases)
  apply (simp_all add: final_message_eq split: if_splits)
  apply (clarsimp simp: fetched_def)+
  done

theorem maxmemory_reconciled_instance:
  "fetched fresh_server (snd (check_redis_settings lru_100 in_bytes fresh_server)) GetMaxmemory \<and>
   Call GetUsedMemory \<in> set (trace (snd (check_redis_settings lru_100 in_bytes fresh_server))) \<and>
   set_maxmemory_calls (trace (snd (check_redis_settings lru_100 in_bytes fresh_server))) = [100] \<and>
   precedes (LogWarning (used_memory_warning ''200.0B'' ''100.0B'')) (Call (SetMaxmemory 100))
     (trace (snd (check_redis_settings lru_100 in_bytes fresh_server)))"
proof -
  let ?run = "check_redis_settings lru_100 in_bytes fresh_server"
  have run: "?run = (fst ?run, snd ?run)"
    by simp
  have f: "fetched fresh_server (snd ?run) GetMaxmemory"
    by (simp add: run_lru_100 fetched_def)
  from maxmemory_reconciled [OF run f] f show ?thesis
    by (simp add: run_lru_100)
qed

text \<open>
  C3. In every run in which no call raised, the reconciler returns, and the final
  warning, which points at the Redis configuration documentation, is logged once if the
  helper's \<open>changed\<close> flag is false and the live state at the end has maximum memory 0 or
  the policy \<open>noeviction\<close>, and is not logged otherwise.
\<close>

theorem final_warning_logged:
  assumes "check_redis_settings opts bfh srv = (out, r)"
    and "raised srv (trace r) = []"
  shows "out = Returned \<and>
         count_list (trace r) (LogWarning final_warning) =
           (if helper_changed r = Some False \<and>
               (live_maxmemory (server r) = 0 \<or> live_policy (server r) = ''noeviction'')
            then 1 else 0)"
  using assms
  apply (elim run_cases)
  apply (simp_all add: final_message_eq split: if_splits)
  apply clarsimp+
  done

theorem final_warning_logged_instance:
  "raised fresh_server (trace (snd (check_redis_settings no_preference in_bytes fresh_server))) = [] \<and>
   fst (check_redis_settings no_preference in_bytes fresh_server) = Returned \<and>
   helper_changed (snd (check_redis_settings no_preference in_bytes fresh_server)) = Some False \<and>
   count_list (trace (snd (check_redis_settings no_preference in_bytes fresh_server)))
     (LogWarning final_warning) = 1"
proof -
  let ?run = "check_redis_settings no_preference in_bytes fresh_server"
  have run: "?run = (fst ?run, snd ?run)"
    by simp
  have quiet: "raised fresh_server (trace (snd ?run)) = []"
    by (simp add: run_no_preference)
  from final_warning_logged [OF run quiet] quiet show ?thesis
    by (simp add: run_no_preference)
qed

text \<open>
  C4. In every run in which a call raised a connection error \<open>e\<close>: the reconciler raises
  \<open>RedisConnectionError\<close> with the cause \<open>e\<close> (the handler for other exceptions does not
  swallow it); the last record of the run is the warning with the message of \<open>e\<close>, logged
  once; and no other call raised.
\<close>

theorem connection_error_raised:
  assumes "check_redis_settings opts bfh srv = (out, r)"
    and "ConnectionError e \<in> set (raised srv (trace r))"
  shows "out = Raised (RedisConnectionError (unable_to_connect e) (ConnectionError e)) \<and>
         unable_to_connect e = ''Unable to connect to Redis: '' @ e \<and>
         last (trace r) = LogWarning (unable_to_connect e) \<and>
         count_list (trace r) (LogWarning (unable_to_connect e)) = 1 \<and>
         raised srv (trace r) = [ConnectionError e]"
  using assms
  apply (elim run_cases)
  apply (simp_all add: final_message_eq split: if_splits)
  apply (clarsimp simp: unable_to_connect_def [of e])+
  done

theorem connection_error_raised_instance:
  "ConnectionError ''Connection refused'' \<in>
     set (raised refusing_server
            (trace (snd (check_redis_settings lru_100 in_bytes refusing_server)))) \<and>
   fst (check_redis_settings lru_100 in_bytes refusing_server) =
     Raised (RedisConnectionError ''Unable to connect to Redis: Connection refused''
       (ConnectionError ''Connection refused'')) \<and>
   last (trace (snd (check_redis_settings lru_100 in_bytes refusing_server))) =
     LogWarning ''Unable to connect to Redis: Connection refused''"
proof -
  let ?run = "check_redis_settings lru_100 in_bytes refusing_server"
  have run: "?run = (fst ?run, snd ?run)"
    by simp
  have refused: "ConnectionError ''Connection refused'' \<in> set (raised refusing_server (trace (snd ?run)))"
    by (simp add: run_refused)
  from connection_error_raised [OF run refused] refused show ?thesis
    by simp
qed

text \<open>
  C5. In every run in which a call raised an exception \<open>e\<close> that is not a connection
  error: the reconciler returns (nothing escapes); the run ends with the warning
  \<open>Unable to check Redis settings\<close> followed by the record of \<open>e\<close>; each of the two is
  recorded once; and no other call raised.
\<close>

theorem other_exception_swallowed:
  assumes "check_redis_settings opts bfh srv = (out, r)"
    and "OtherException e \<in> set (raised srv (trace r))"
  shows "out = Returned \<and>
         last (butlast (trace r)) = LogWarning unable_to_check \<and>
         last (trace r) = LogException (OtherException e) \<and>
         count_list (trace r) (LogWarning unable_to_check) = 1 \<and>
         count_list (trace r) (LogException (OtherException e)) = 1 \<and>
         raised srv (trace r) = [OtherException e]"
  using assms
  apply (elim run_cases)
  apply (simp_all add: final_message_eq split: if_splits)
  apply clarsimp+
  done

theorem other_exception_swallowed_instance:
  "OtherException ''invalid literal'' \<in>
     set (raised confused_server
            (trace (snd (check_redis_settings no_preference in_bytes confused_server)))) \<and>
   fst (check_redis_settings no_preference in_bytes confused_server) = Returned \<and>
   last (trace (snd (check_redis_settings no_preference in_bytes confused_server))) =
     LogException (OtherException ''invalid literal'') \<and>
   count_list (trace (snd (check_redis_settings no_preference in_bytes confused_server)))
     (LogWarning unable_to_check) = 1"
proof -
  let ?run = "check_redis_settings no_preference in_bytes confused_server"
  have run: "?run = (fst ?run, snd ?run)"
    by simp
  have confused: "OtherException ''invalid literal'' \<in> set (raised confused_server (trace (snd ?run)))"
    by (simp add: run_confused)
  from other_exception_swallowed [OF run confused] confused show ?thesis
    by simp
qed

text \<open>
  C6. At the end of every run, the helper's \<open>changed\<close> flag is true if and only if a
  corrective write (a call that sets the policy or the maximum memory) was sent.
\<close>

theorem changed_iff_write_sent:
  assumes "check_redis_settings opts bfh srv = (out, r)"
  shows "(helper_changed r = Some True) =
         (set_policy_calls (trace r) \<noteq> [] \<or> set_maxmemory_calls (trace r) \<noteq> [])"
  using assms
  apply (elim run_cases)
  apply (simp_all add: final_message_eq split: if_splits)
  apply clarsimp+
  done

theorem changed_iff_write_sent_instance:
  "helper_changed (snd (check_redis_settings lru_100 in_bytes settled_server)) = Some False \<and>
   set_policy_calls (trace (snd (check_redis_settings lru_100 in_bytes settled_server))) = [] \<and>
   set_maxmemory_calls (trace (snd (check_redis_settings lru_100 in_bytes settled_server))) = []"
proof -
  let ?run = "check_redis_settings lru_100 in_bytes settled_server"
  have run: "?run = (fst ?run, snd ?run)"
    by simp
  have "helper_changed (snd ?run) = Some False"
    by (simp add: run_settled)
  with changed_iff_write_sent [OF run] show ?thesis
    by simp
qed

text \<open>
  No event occurs twice in a run: each call is made at most once, so that one outcome for
  each call (the field \<open>raises\<close>) describes every way in which the calls of a run can fail.
\<close>

lemma events_once:
  assumes "check_redis_settings opts bfh srv = (out, r)"
  shows "distinct (trace r)"
  using assms
  apply (elim run_cases)
  apply (simp_all add: final_message_eq split: if_splits)
  apply clarsimp+
  done

text \<open>
  Once no call of a run has raised, the server has the desired policy, unless none is
  configured, and the desired maximum, unless none is configured.
\<close>

lemma settled_after_run:
  assumes "check_redis_settings opts bfh srv = (out, r)"
    and "raised srv (trace r) = []" and "CACHE_BACKEND opts = ''redis''"
  shows "(CACHE_REDIS_MAXMEMORY_POLICY opts = '''' \<or>
            live_policy (server r) = CACHE_REDIS_MAXMEMORY_POLICY opts) \<and>
         (CACHE_REDIS_MAXMEMORY opts \<le> 0 \<or>
            live_maxmemory (server r) = CACHE_REDIS_MAXMEMORY opts)"
  using assms
  apply (elim run_cases)
  apply (simp_all add: final_message_eq split: if_splits)
  apply clarsimp+
  done

text \<open>On such a server a run writes nothing.\<close>

lemma settled_no_writes:
  assumes "check_redis_settings opts bfh srv = (out, r)"
    and "CACHE_BACKEND opts = ''redis'' \<Longrightarrow>
           (CACHE_REDIS_MAXMEMORY_POLICY opts = '''' \<or>
              live_policy srv = CACHE_REDIS_MAXMEMORY_POLICY opts) \<and>
           (CACHE_REDIS_MAXMEMORY opts \<le> 0 \<or>
              live_maxmemory srv = CACHE_REDIS_MAXMEMORY opts)"
  shows "set_policy_calls (trace r) = [] \<and> set_maxmemory_calls (trace r) = [] \<and> server r = srv"
  using assms
  apply (elim run_cases)
  apply (simp_all add: final_message_eq split: if_splits)
  apply clarsimp+
  done

text \<open>A write that returned is still on the server at the end of the run.\<close>

lemma write_persists:
  assumes "check_redis_settings opts bfh srv = (out, r)"
  shows "(p \<in> set (set_policy_calls (trace r)) \<and> raises srv (SetMaxmemoryPolicy p) = None
            \<longrightarrow> live_policy (server r) = p) \<and>
         (m \<in> set (set_maxmemory_calls (trace r)) \<and> raises srv (SetMaxmemory m) = None
            \<longrightarrow> live_maxmemory (server r) = m)"
  using assms
  apply (elim run_cases)
  apply (simp_all add: final_message_eq split: if_splits)
  apply clarsimp+
  done

text \<open>
  C9. If no call raised in a first run, then a second run with the same configuration,
  on any server whose live policy and live maximum memory are those that the first run
  left, sends no corrective write and leaves the server as it found it.
\<close>

theorem reconciler_idempotent:
  assumes "check_redis_settings opts bfh srv = (out, r)"
    and "raised srv (trace r) = []"
    and "live_policy srv' = live_policy (server r)"
    and "live_maxmemory srv' = live_maxmemory (server r)"
    and "check_redis_settings opts bfh' srv' = (out', r')"
  shows "set_policy_calls (trace r') = [] \<and> set_maxmemory_calls (trace r') = [] \<and>
         server r' = srv'"
  using settled_no_writes [OF assms(5)] settled_after_run [OF assms(1,2)] assms(3,4)
  by simp

theorem reconciler_idempotent_instance:
  "raised fresh_server (trace (snd (check_redis_settings lru_100 in_bytes fresh_server))) = [] \<and>
   set_policy_calls (trace (snd (check_redis_settings lru_100 in_bytes fresh_server))) =
     [''allkeys-lru''] \<and>
   live_policy settled_server =
     live_policy (server (snd (check_redis_settings lru_100 in_bytes fresh_server))) \<and>
   live_maxmemory settled_server =
     live_maxmemory (server (snd (check_redis_settings lru_100 in_bytes fresh_server))) \<and>
   set_policy_calls (trace (snd (check_redis_settings lru_100 in_bytes settled_server))) = [] \<and>
   set_maxmemory_calls (trace (snd (check_redis_settings lru_100 in_bytes settled_server))) = [] \<and>
   server (snd (check_redis_settings lru_100 in_bytes settled_server)) = settled_server"
proof -
  let ?first = "check_redis_settings lru_100 in_bytes fresh_server"
  let ?second = "check_redis_settings lru_100 in_bytes settled_server"
  have first: "?first = (fst ?first, snd ?first)" and second: "?second = (fst ?second, snd ?second)"
    by simp_all
  have quiet: "raised fresh_server (trace (snd ?first)) = []"
    by (simp add: run_lru_100)
  have policy: "live_policy settled_server = live_policy (server (snd ?first))"
    and maxmemory: "live_maxmemory settled_server = live_maxmemory (server (snd ?first))"
    by (simp_all add: run_lru_100)
  from reconciler_idempotent [OF first quiet policy maxmemory second] quiet policy maxmemory
  show ?thesis
    by (simp add: run_lru_100)
qed

text \<open>
  C10. The reconciler is not atomic on error. There is a run in which the policy is
  corrected on the server, the fetch of the maximum memory then raises a connection error,
  the reconciler raises \<open>RedisConnectionError\<close>, and the server keeps the corrected
  policy. In every run, a corrective write that returned is still on the server at the
  end, however the run ends.
\<close>

theorem not_atomic_on_error:
  "(\<exists>opts bfh srv e r p.
      check_redis_settings opts bfh srv =
        (Raised (RedisConnectionError (unable_to_connect e) (ConnectionError e)), r) \<and>
      raises srv GetMaxmemory = Some (ConnectionError e) \<and>
      live_policy srv \<noteq> p \<and> set_policy_calls (trace r) = [p] \<and>
      live_policy (server r) = p) \<and>
   (\<forall>opts bfh srv out r p m.
      check_redis_settings opts bfh srv = (out, r) \<longrightarrow>
      (p \<in> set (set_policy_calls (trace r)) \<and> raises srv (SetMaxmemoryPolicy p) = None
         \<longrightarrow> live_policy (server r) = p) \<and>
      (m \<in> set (set_maxmemory_calls (trace r)) \<and> raises srv (SetMaxmemory m) = None
         \<longrightarrow> live_maxmemory (server r) = m))"
proof (rule conjI)
  show "\<exists>opts bfh srv e r p.
      check_redis_settings opts bfh srv =
        (Raised (RedisConnectionError (unable_to_connect e) (ConnectionError e)), r) \<and>
      raises srv GetMaxmemory = Some (ConnectionError e) \<and>
      live_policy srv \<noteq> p \<and> set_policy_calls (trace r) = [p] \<and>
      live_policy (server r) = p"
    apply (intro exI conjI)
        apply (rule run_refused)
       apply simp_all
    done
next
  show "\<forall>opts bfh srv out r p m.
      check_redis_settings opts bfh srv = (out, r) \<longrightarrow>
      (p \<in> set (set_policy_calls (trace r)) \<and> raises srv (SetMaxmemoryPolicy p) = None
         \<longrightarrow> live_policy (server r) = p) \<and>
      (m \<in> set (set_maxmemory_calls (trace r)) \<and> raises srv (SetMaxmemory m) = None
         \<longrightarrow> live_maxmemory (server r) = m)"
    using write_persists by blast
qed

theorem not_atomic_on_error_instance:
  "fst (check_redis_settings lru_100 in_bytes refusing_server) =
     Raised (RedisConnectionError (unable_to_connect ''Connection refused'')
       (ConnectionError ''Connection refused'')) \<and>
   ''allkeys-lru'' \<in>
     set (set_policy_calls (trace (snd (check_redis_settings lru_100 in_bytes refusing_server)))) \<and>
   raises refusing_server (SetMaxmemoryPolicy ''allkeys-lru'') = None \<and>
   live_policy refusing_server = ''noeviction'' \<and>
   live_policy (server (snd (check_redis_settings lru_100 in_bytes refusing_server))) =
     ''allkeys-lru''"
proof -
  let ?run = "check_redis_settings lru_100 in_bytes refusing_server"
  have run: "?run = (fst ?run, snd ?run)"
    by simp
  have sent: "''allkeys-lru'' \<in> set (set_policy_calls (trace (snd ?run)))"
    by (simp add: run_refused)
  have returned: "raises refusing_server (SetMaxmemoryPolicy ''allkeys-lru'') = None"
    by simp
  from not_atomic_on_error run sent returned
  have "live_policy (server (snd ?run)) = ''allkeys-lru''"
    by blast
  with sent returned show ?thesis
    by (simp add: run_refused)
qed

section \<open>The claims about the database tuners\<close>

lemmas db_defs = and_then_def pass_def db_call_def quick_check_probe_def broken_db_def

lemma tuner_malformed:
  "activate_pragmas_per_connection ''notifications'' ''PRAGMA wal_autocheckpoint=500;''
     notifications_db malformed_db =
   (None,
    [ConnectionCursor notifications_db, CursorExecute ''PRAGMA quick_check'', Fetchone,
     RepairSqliteDb notifications_db, ConnectionCursor notifications_db,
     CursorExecutescript ''PRAGMA wal_autocheckpoint=500;''])"
  by (simp add: activate_pragmas_per_connection_def db_defs)

lemma start_healthy:
  "activate_pragmas_on_start ''PRAGMA journal_mode=WAL;'' notifications_db healthy_start =
   (None,
    [ConnectionCursor notifications_db, CursorExecute ''PRAGMA journal_mode=WAL;'',
     ConnectionClose notifications_db])"
  by (simp add: activate_pragmas_on_start_def db_defs)

text \<open>
  C7. In every invocation of the connection tuner on a connection \<open>c\<close>. If \<open>c\<close> is an
  sqlite connection with the reserved alias and the integrity probe fails, the repair is
  called exactly once, on \<open>c\<close>, and if the repair and the cursor after it return, the
  tuning script is executed after the repair, as the last call. If \<open>c\<close> is an sqlite
  connection with another alias, there is no probe and no repair, and the tuning script
  is executed on the cursor if the cursor call returns. If \<open>c\<close> is not an sqlite
  connection, nothing is called.
\<close>

theorem connection_tuner:
  assumes "activate_pragmas_per_connection NOTIFICATIONS CONNECTION_PRAGMAS c env = (exc, t)"
  shows "if vendor c = ''sqlite''
         then if alias c = NOTIFICATIONS
              then probe_fails env \<longrightarrow>
                     repair_calls t = [c] \<and>
                     (repair env = None \<and> pragmas_cursor env = None \<longrightarrow>
                        precedes (RepairSqliteDb c) (CursorExecutescript CONNECTION_PRAGMAS) t \<and>
                        last t = CursorExecutescript CONNECTION_PRAGMAS)
              else repair_calls t = [] \<and>
                   CursorExecute ''PRAGMA quick_check'' \<notin> set t \<and> Fetchone \<notin> set t \<and>
                   (pragmas_cursor env = None \<longrightarrow>
                      t = [ConnectionCursor c, CursorExecutescript CONNECTION_PRAGMAS])
         else t = [] \<and> exc = None"
  using assms
  unfolding activate_pragmas_per_connection_def db_defs probe_fails_def
  by (auto split: if_splits option.splits sum.splits db_exn.splits)

theorem connection_tuner_instance:
  "probe_fails malformed_db \<and> repair malformed_db = None \<and> pragmas_cursor malformed_db = None \<and>
   repair_calls (snd (activate_pragmas_per_connection ''notifications''
     ''PRAGMA wal_autocheckpoint=500;'' notifications_db malformed_db)) = [notifications_db] \<and>
   precedes (RepairSqliteDb notifications_db)
     (CursorExecutescript ''PRAGMA wal_autocheckpoint=500;'')
     (snd (activate_pragmas_per_connection ''notifications''
       ''PRAGMA wal_autocheckpoint=500;'' notifications_db malformed_db)) \<and>
   last (snd (activate_pragmas_per_connection ''notifications''
     ''PRAGMA wal_autocheckpoint=500;'' notifications_db malformed_db)) =
     CursorExecutescript ''PRAGMA wal_autocheckpoint=500;''"
proof -
  let ?call = "activate_pragmas_per_connection ''notifications''
     ''PRAGMA wal_autocheckpoint=500;'' notifications_db malformed_db"
  have call: "?call = (fst ?call, snd ?call)"
    by simp
  have fails: "probe_fails malformed_db"
    by (simp add: probe_fails_def)
  from connection_tuner [OF call] fails show ?thesis
    by simp
qed

text \<open>
  C8. In every invocation of the startup tuner on the default connection \<open>c\<close>. If \<open>c\<close> is
  an sqlite connection, the startup script is executed once the cursor call returns, and
  once the script returns the connection is closed: the calls are the cursor, the script
  and the close, in this order. If \<open>c\<close> is not an sqlite connection, nothing is called:
  no script is executed and the connection is not closed.
\<close>

theorem startup_tuner:
  assumes "activate_pragmas_on_start START_PRAGMAS c env = (exc, t)"
  shows "if vendor c = ''sqlite''
         then start_cursor env = None \<longrightarrow>
                CursorExecute START_PRAGMAS \<in> set t \<and>
                (start_execute env = None \<longrightarrow>
                   t = [ConnectionCursor c, CursorExecute START_PRAGMAS, ConnectionClose c] \<and>
                   exc = start_close env)
         else t = [] \<and> exc = None"
  using assms
  unfolding activate_pragmas_on_start_def db_defs
  by (auto split: if_splits option.splits)

theorem startup_tuner_instance:
  "vendor notifications_db = ''sqlite'' \<and> start_cursor healthy_start = None \<and>
   start_execute healthy_start = None \<and>
   snd (activate_pragmas_on_start ''PRAGMA journal_mode=WAL;'' notifications_db healthy_start) =
     [ConnectionCursor notifications_db, CursorExecute ''PRAGMA journal_mode=WAL;'',
      ConnectionClose notifications_db] \<and>
   fst (activate_pragmas_on_start ''PRAGMA journal_mode=WAL;'' notifications_db healthy_start) =
     None"
proof -
  let ?call = "activate_pragmas_on_start ''PRAGMA journal_mode=WAL;'' notifications_db healthy_start"
  have call: "?call = (fst ?call, snd ?call)"
    by simp
  from startup_tuner [OF call] show ?thesis
    by simp
qed

end
